theory Spec2Isabelle
  imports Main "HOL-Library.Word"
begin

section \<open>The RenderScript support-library native glue\<close>

text \<open>
  The source file \<^verbatim>\<open>android_renderscript_RenderScript.cpp\<close> is a layer of thin
  native entry points. Each entry point unpacks its arguments and calls function pointers
  held in one of two process-wide tables, \<^verbatim>\<open>dispatchTab\<close> (the primary or fallback
  library) and \<^verbatim>\<open>dispatchTabInc\<close> (the incremental library).

  The embedding records what an entry point does as a list of events appended to the
  history it receives: every call through a table (with the table it went through and the
  arguments it carried) and every lock and unlock of a bitmap. The value a table entry
  returns is not determined by this file, so it is supplied by a parameter \<open>be\<close> that may
  depend on the history, the table and the call.

  Machine types: \<^verbatim>\<open>jlong\<close> is a 64-bit word, \<^verbatim>\<open>jint\<close> a 32-bit word,
  \<^verbatim>\<open>jshort\<close> 16 bits, \<^verbatim>\<open>jbyte\<close> 8 bits; \<^verbatim>\<open>jfloat\<close> values are only
  moved, never computed with, and are kept as their 32-bit patterns. Pointers and
  \<^verbatim>\<open>size_t\<close> are taken 64 bits wide (an LP64 build), so the casts between
  \<^verbatim>\<open>jlong\<close>, \<^verbatim>\<open>uintptr_t\<close> and the handle types are identities. Pinning and
  releasing the elements of a Java array yields the array's contents and is not recorded.
\<close>

type_synonym jlong = "64 word"
type_synonym jint = "32 word"
type_synonym jshort = "16 word"
type_synonym jbyte = "8 word"
type_synonym size_t = "64 word"

subsection \<open>Tables, calls and events\<close>

datatype table = DispatchTab | DispatchTabInc

text \<open>
  A buffer handed to a table entry: the null pointer, a raw host address (locked bitmap
  pixels), or the pinned elements of a Java array of one of the five primitive kinds.
\<close>

datatype buffer =
    NullPtr
  | HostPtr jlong
  | LongArray "jlong list"
  | IntArray "jint list"
  | ShortArray "jshort list"
  | ByteArray "jbyte list"
  | FloatArray "32 word list"

text \<open>
  Enumerations and structures declared in headers outside this file. Of
  \<^verbatim>\<open>RsForEachStrategy\<close> and of the named cubemap faces only the members the file
  uses are listed; a face obtained by casting an integer is \<open>Face\<close> of that integer.
\<close>

datatype RsForEachStrategy = RS_FOR_EACH_STRATEGY_DONT_CARE

datatype RsAllocationCubemapFace = RS_ALLOCATION_CUBEMAP_FACE_POSITIVE_X | Face jint

record RsScriptCall =
  xStart :: "32 word"
  xEnd :: "32 word"
  yStart :: "32 word"
  yEnd :: "32 word"
  zStart :: "32 word"
  zEnd :: "32 word"
  strategy :: RsForEachStrategy
  arrayStart :: "32 word"
  arrayEnd :: "32 word"

datatype AndroidBitmapFormat =
    ANDROID_BITMAP_FORMAT_NONE
  | ANDROID_BITMAP_FORMAT_RGBA_8888
  | ANDROID_BITMAP_FORMAT_RGB_565
  | ANDROID_BITMAP_FORMAT_RGBA_4444
  | ANDROID_BITMAP_FORMAT_A_8

text \<open>
  A Java bitmap as the external pixel-buffer facility presents it: the fields of
  \<^verbatim>\<open>AndroidBitmapInfo\<close> that \<^verbatim>\<open>AndroidBitmap_getInfo\<close> fills in (all zero, with
  format \<open>NONE\<close>, when it fails), and the address \<^verbatim>\<open>AndroidBitmap_lockPixels\<close>
  stores through its output parameter (0, the initial \<^verbatim>\<open>NULL\<close>, when the lock fails).
\<close>

record jbitmap =
  width :: "32 word"
  height :: "32 word"
  format :: AndroidBitmapFormat
  lockPixels :: jlong

text \<open>
  A native buffer obtained from \<^verbatim>\<open>malloc\<close>, \<^verbatim>\<open>calloc\<close> or \<^verbatim>\<open>alloca\<close>
  is a list of cells; a cell that no assignment has reached is \<open>None\<close>. A null pointer
  that comes with the count 0 is the empty list.
\<close>

type_synonym 'a cells = "'a option list"

text \<open>
  The calls through a table that the modelled entry points make, each with the
  arguments in the order of the source. A trailing \<^verbatim>\<open>size_t\<close> that the source
  computes is kept as an argument.
\<close>

datatype call =
    ContextFinish jlong
  | ContextSendMessage jlong jint buffer size_t
  | AllocationGetPointer jlong jlong jint RsAllocationCubemapFace jint jint
  | AllocationCreateTyped jlong jlong jint jint jlong
  | AllocationCreateFromBitmap jlong jlong jint jlong size_t jint
  | AllocationCubeCreateFromBitmap jlong jlong jint jlong size_t jint
  | AllocationCopyToBitmap jlong jlong jlong size_t
  | Allocation1DData jlong jlong jint jint jint buffer size_t
  | Allocation2DData jlong jlong jint jint jint RsAllocationCubemapFace jint jint buffer size_t size_t
  | Allocation3DData jlong jlong jint jint jint jint jint jint jint buffer size_t size_t
  | AllocationRead jlong jlong buffer size_t
  | ScriptSetVarI jlong jlong jint jint
  | ScriptForEach jlong jlong jint jlong jlong buffer size_t "RsScriptCall option"
  | ScriptKernelIDCreate jlong jlong jint jint
  | ScriptFieldIDCreate jlong jlong jint
  | ElementCreate2 jlong "jlong cells" size_t "string cells" size_t "size_t cells"
      "32 word cells" size_t
  | ClosureCreate jlong jlong jlong "jlong cells" size_t "jlong cells" size_t buffer size_t
      "jlong cells" size_t "jlong cells" size_t

datatype event =
    Call table call
  | AndroidBitmap_lockPixels jbitmap
  | AndroidBitmap_unlockPixels jbitmap

type_synonym history = "event list"
type_synonym backend = "history \<Rightarrow> table \<Rightarrow> call \<Rightarrow> jlong"

definition dispatch :: "backend \<Rightarrow> table \<Rightarrow> call \<Rightarrow> history \<Rightarrow> jlong \<times> history" where
  "dispatch be t c st = (be st t c, st @ [Call t c])"

definition dispatch_void :: "table \<Rightarrow> call \<Rightarrow> history \<Rightarrow> history" where
  "dispatch_void t c st = st @ [Call t c]"

subsection \<open>Script entry points that take \<^verbatim>\<open>mUseInc\<close>\<close>

definition nScriptSetVarI :: "history \<Rightarrow> jlong \<Rightarrow> jlong \<Rightarrow> jint \<Rightarrow> jint \<Rightarrow> bool \<Rightarrow> history" where
  "nScriptSetVarI st con script slot val mUseInc =
     (if mUseInc then dispatch_void DispatchTabInc (ScriptSetVarI con script slot val) st
      else dispatch_void DispatchTab (ScriptSetVarI con script slot val) st)"

definition nScriptKernelIDCreate ::
  "backend \<Rightarrow> history \<Rightarrow> jlong \<Rightarrow> jlong \<Rightarrow> jint \<Rightarrow> jint \<Rightarrow> bool \<Rightarrow> jlong \<times> history" where
  "nScriptKernelIDCreate be st con sid slot sig mUseInc =
     (if mUseInc then dispatch be DispatchTabInc (ScriptKernelIDCreate con sid slot sig) st
      else dispatch be DispatchTab (ScriptKernelIDCreate con sid slot sig) st)"

text \<open>Both branches of the source go through \<^verbatim>\<open>dispatchTab\<close>.\<close>

definition nScriptFieldIDCreate ::
  "backend \<Rightarrow> history \<Rightarrow> jlong \<Rightarrow> jlong \<Rightarrow> jint \<Rightarrow> bool \<Rightarrow> jlong \<times> history" where
  "nScriptFieldIDCreate be st con sid slot mUseInc =
     (if mUseInc then dispatch be DispatchTab (ScriptFieldIDCreate con sid slot) st
      else dispatch be DispatchTab (ScriptFieldIDCreate con sid slot) st)"

subsection \<open>Messages to the library\<close>

text \<open>
  \<^verbatim>\<open>data\<close> is \<open>None\<close> for a null array reference. The source declares
  \<^verbatim>\<open>jint *ptr = NULL\<close> at function scope and, inside the \<^verbatim>\<open>if (data)\<close> block,
  declares a second \<^verbatim>\<open>jint *ptr\<close> that receives the pinned elements; that inner
  variable ends with the block, and the call that follows reads the outer one.
\<close>

definition nContextSendMessage :: "history \<Rightarrow> jlong \<Rightarrow> jint \<Rightarrow> jint list option \<Rightarrow> history" where
  "nContextSendMessage st con ident data =
     (let ptr = NullPtr;
          len = (case data of None \<Rightarrow> 0 | Some d \<Rightarrow> (of_nat (length d) :: size_t))
      in dispatch_void DispatchTab (ContextSendMessage con ident ptr (len * 4)) st)"

subsection \<open>Kernel launches\<close>

text \<open>
  The last two arguments of \<^verbatim>\<open>ScriptForEach\<close> in the source are a pointer to an
  \<^verbatim>\<open>RsScriptCall\<close> and its size: \<^verbatim>\<open>NULL, 0\<close> is \<open>None\<close>, and
  \<^verbatim>\<open>&sc, sizeof(sc)\<close> is \<open>Some sc\<close>.
\<close>

definition nScriptForEach ::
  "history \<Rightarrow> jlong \<Rightarrow> jlong \<Rightarrow> jlong \<Rightarrow> jint \<Rightarrow> jlong \<Rightarrow> jlong \<Rightarrow> bool \<Rightarrow> history" where
  "nScriptForEach st con incCon script slot ain aout mUseInc =
     (if mUseInc then
        (let st1 = dispatch_void DispatchTab (ContextFinish con) st;
             st2 = dispatch_void DispatchTabInc
                     (ScriptForEach incCon script slot ain aout NullPtr 0 None) st1
         in dispatch_void DispatchTabInc (ContextFinish incCon) st2)
      else dispatch_void DispatchTab (ScriptForEach con script slot ain aout NullPtr 0 None) st)"

definition nScriptForEachV ::
  "history \<Rightarrow> jlong \<Rightarrow> jlong \<Rightarrow> jlong \<Rightarrow> jint \<Rightarrow> jlong \<Rightarrow> jlong \<Rightarrow> jbyte list \<Rightarrow> bool \<Rightarrow> history" where
  "nScriptForEachV st con incCon script slot ain aout params mUseInc =
     (let len = (of_nat (length params) :: size_t); ptr = ByteArray params in
      if mUseInc then
        (let st1 = dispatch_void DispatchTab (ContextFinish con) st;
             st2 = dispatch_void DispatchTabInc
                     (ScriptForEach incCon script slot ain aout ptr len None) st1
         in dispatch_void DispatchTabInc (ContextFinish incCon) st2)
      else dispatch_void DispatchTab (ScriptForEach con script slot ain aout ptr len None) st)"

definition nScriptForEachClipped ::
  "history \<Rightarrow> jlong \<Rightarrow> jlong \<Rightarrow> jlong \<Rightarrow> jint \<Rightarrow> jlong \<Rightarrow> jlong \<Rightarrow>
   jint \<Rightarrow> jint \<Rightarrow> jint \<Rightarrow> jint \<Rightarrow> jint \<Rightarrow> jint \<Rightarrow> bool \<Rightarrow> history" where
  "nScriptForEachClipped st con incCon script slot ain aout
       xstart xend ystart yend zstart zend mUseInc =
     (let sc = \<lparr>xStart = xstart, xEnd = xend, yStart = ystart, yEnd = yend,
                zStart = zstart, zEnd = zend, strategy = RS_FOR_EACH_STRATEGY_DONT_CARE,
                arrayStart = 0, arrayEnd = 0\<rparr> in
      if mUseInc then
        (let st1 = dispatch_void DispatchTab (ContextFinish con) st;
             st2 = dispatch_void DispatchTabInc
                     (ScriptForEach incCon script slot ain aout NullPtr 0 (Some sc)) st1
         in dispatch_void DispatchTabInc (ContextFinish incCon) st2)
      else dispatch_void DispatchTab
             (ScriptForEach con script slot ain aout NullPtr 0 (Some sc)) st)"

text \<open>The closing \<^verbatim>\<open>ContextFinish\<close> of this variant is given \<^verbatim>\<open>con\<close> in the source.\<close>

definition nScriptForEachClippedV ::
  "history \<Rightarrow> jlong \<Rightarrow> jlong \<Rightarrow> jlong \<Rightarrow> jint \<Rightarrow> jlong \<Rightarrow> jlong \<Rightarrow> jbyte list \<Rightarrow>
   jint \<Rightarrow> jint \<Rightarrow> jint \<Rightarrow> jint \<Rightarrow> jint \<Rightarrow> jint \<Rightarrow> bool \<Rightarrow> history" where
  "nScriptForEachClippedV st con incCon script slot ain aout params
       xstart xend ystart yend zstart zend mUseInc =
     (let len = (of_nat (length params) :: size_t); ptr = ByteArray params;
          sc = \<lparr>xStart = xstart, xEnd = xend, yStart = ystart, yEnd = yend,
                zStart = zstart, zEnd = zend, strategy = RS_FOR_EACH_STRATEGY_DONT_CARE,
                arrayStart = 0, arrayEnd = 0\<rparr> in
      if mUseInc then
        (let st1 = dispatch_void DispatchTab (ContextFinish con) st;
             st2 = dispatch_void DispatchTabInc
                     (ScriptForEach incCon script slot ain aout ptr len (Some sc)) st1
         in dispatch_void DispatchTabInc (ContextFinish con) st2)
      else dispatch_void DispatchTab
             (ScriptForEach con script slot ain aout ptr len (Some sc)) st)"

subsection \<open>Bitmap-backed creation and copy\<close>

text \<open>
  The product \<^verbatim>\<open>info.width * info.height\<close> is computed in 32 bits and then widened
  to \<^verbatim>\<open>size_t\<close>; the \<^verbatim>\<open>switch\<close> has no default, so any other format leaves it as
  it is.
\<close>

definition GetBitmapSize :: "jbitmap \<Rightarrow> size_t" where
  "GetBitmapSize jbitmap =
     (let s = (ucast (width jbitmap * height jbitmap) :: size_t) in
      case format jbitmap of
        ANDROID_BITMAP_FORMAT_RGBA_8888 \<Rightarrow> s * 4
      | ANDROID_BITMAP_FORMAT_RGB_565 \<Rightarrow> s * 2
      | ANDROID_BITMAP_FORMAT_RGBA_4444 \<Rightarrow> s * 2
      | _ \<Rightarrow> s)"

definition nAllocationCreateFromBitmap ::
  "backend \<Rightarrow> history \<Rightarrow> jlong \<Rightarrow> jlong \<Rightarrow> jint \<Rightarrow> jbitmap \<Rightarrow> jint \<Rightarrow> jlong \<times> history" where
  "nAllocationCreateFromBitmap be st con type mip jbitmap usage =
     (let st1 = st @ [AndroidBitmap_lockPixels jbitmap];
          pixels = lockPixels jbitmap
      in if pixels \<noteq> 0 then
           (let (ident, st2) = dispatch be DispatchTab
                  (AllocationCreateFromBitmap con type mip pixels (GetBitmapSize jbitmap) usage) st1
            in (ident, st2 @ [AndroidBitmap_unlockPixels jbitmap]))
         else (0, st1))"

definition nAllocationCreateBitmapBackedAllocation ::
  "backend \<Rightarrow> history \<Rightarrow> jlong \<Rightarrow> jlong \<Rightarrow> jint \<Rightarrow> jbitmap \<Rightarrow> jint \<Rightarrow> jlong \<times> history" where
  "nAllocationCreateBitmapBackedAllocation be st con type mip jbitmap usage =
     (let st1 = st @ [AndroidBitmap_lockPixels jbitmap];
          pixels = lockPixels jbitmap
      in if pixels \<noteq> 0 then
           (let (ident, st2) = dispatch be DispatchTab
                  (AllocationCreateTyped con type mip usage pixels) st1
            in (ident, st2 @ [AndroidBitmap_unlockPixels jbitmap]))
         else (0, st1))"

definition nAllocationCubeCreateFromBitmap ::
  "backend \<Rightarrow> history \<Rightarrow> jlong \<Rightarrow> jlong \<Rightarrow> jint \<Rightarrow> jbitmap \<Rightarrow> jint \<Rightarrow> jlong \<times> history" where
  "nAllocationCubeCreateFromBitmap be st con type mip jbitmap usage =
     (let st1 = st @ [AndroidBitmap_lockPixels jbitmap];
          pixels = lockPixels jbitmap
      in if pixels \<noteq> 0 then
           (let (ident, st2) = dispatch be DispatchTab
                  (AllocationCubeCreateFromBitmap con type mip pixels (GetBitmapSize jbitmap) usage)
                  st1
            in (ident, st2 @ [AndroidBitmap_unlockPixels jbitmap]))
         else (0, st1))"

definition nAllocationCopyFromBitmap :: "history \<Rightarrow> jlong \<Rightarrow> jlong \<Rightarrow> jbitmap \<Rightarrow> history" where
  "nAllocationCopyFromBitmap st con alloc jbitmap =
     (let st1 = st @ [AndroidBitmap_lockPixels jbitmap];
          pixels = lockPixels jbitmap
      in if pixels \<noteq> 0 then
           (let st2 = dispatch_void DispatchTab
                  (Allocation2DData con alloc 0 0 0 RS_ALLOCATION_CUBEMAP_FACE_POSITIVE_X
                     (width jbitmap) (height jbitmap) (HostPtr pixels) (GetBitmapSize jbitmap) 0)
                  st1
            in st2 @ [AndroidBitmap_unlockPixels jbitmap])
         else st1)"

definition nAllocationCopyToBitmap :: "history \<Rightarrow> jlong \<Rightarrow> jlong \<Rightarrow> jbitmap \<Rightarrow> history" where
  "nAllocationCopyToBitmap st con alloc jbitmap =
     (let st1 = st @ [AndroidBitmap_lockPixels jbitmap];
          pixels = lockPixels jbitmap
      in if pixels \<noteq> 0 then
           (let st2 = dispatch_void DispatchTab
                  (AllocationCopyToBitmap con alloc pixels (GetBitmapSize jbitmap)) st1
            in st2 @ [AndroidBitmap_unlockPixels jbitmap])
         else st1)"

subsection \<open>Writing to and reading from an allocation\<close>

text \<open>
  The write entry points take the byte count as an \<^verbatim>\<open>int\<close> and pass it where the
  table entry expects a \<^verbatim>\<open>size_t\<close>: the conversion extends the sign. The local
  \<^verbatim>\<open>len\<close> is used for logging only.
\<close>

definition nAllocationData1D_l ::
  "history \<Rightarrow> jlong \<Rightarrow> jlong \<Rightarrow> jint \<Rightarrow> jint \<Rightarrow> jint \<Rightarrow> jlong list \<Rightarrow> jint \<Rightarrow> history" where
  "nAllocationData1D_l st con alloc offset lod count data sizeBytes =
     dispatch_void DispatchTab
       (Allocation1DData con alloc offset lod count (LongArray data) (scast sizeBytes)) st"

definition nAllocationData1D_i ::
  "history \<Rightarrow> jlong \<Rightarrow> jlong \<Rightarrow> jint \<Rightarrow> jint \<Rightarrow> jint \<Rightarrow> jint list \<Rightarrow> jint \<Rightarrow> history" where
  "nAllocationData1D_i st con alloc offset lod count data sizeBytes =
     dispatch_void DispatchTab
       (Allocation1DData con alloc offset lod count (IntArray data) (scast sizeBytes)) st"

definition nAllocationData2D_i ::
  "history \<Rightarrow> jlong \<Rightarrow> jlong \<Rightarrow> jint \<Rightarrow> jint \<Rightarrow> jint \<Rightarrow> jint \<Rightarrow> jint \<Rightarrow> jint \<Rightarrow>
   jint list \<Rightarrow> jint \<Rightarrow> history" where
  "nAllocationData2D_i st con alloc xoff yoff lod face w h data sizeBytes =
     dispatch_void DispatchTab
       (Allocation2DData con alloc xoff yoff lod (Face face) w h (IntArray data)
          (scast sizeBytes) 0) st"

definition nAllocationData3D_i ::
  "history \<Rightarrow> jlong \<Rightarrow> jlong \<Rightarrow> jint \<Rightarrow> jint \<Rightarrow> jint \<Rightarrow> jint \<Rightarrow> jint \<Rightarrow> jint \<Rightarrow> jint \<Rightarrow>
   jint list \<Rightarrow> jint \<Rightarrow> history" where
  "nAllocationData3D_i st con alloc xoff yoff zoff lod w h d data sizeBytes =
     dispatch_void DispatchTab
       (Allocation3DData con alloc xoff yoff zoff lod w h d (IntArray data)
          (scast sizeBytes) 0) st"

text \<open>
  The read entry points compute the byte count themselves, as the array length times
  the \<^verbatim>\<open>sizeof\<close> written in the source: \<^verbatim>\<open>sizeof(int)\<close> in \<^verbatim>\<open>nAllocationRead_l\<close>
  and \<^verbatim>\<open>nAllocationRead_i\<close>, \<^verbatim>\<open>sizeof(short)\<close>, \<^verbatim>\<open>sizeof(char)\<close> and
  \<^verbatim>\<open>sizeof(float)\<close> in the other three.
\<close>

definition nAllocationRead_l :: "history \<Rightarrow> jlong \<Rightarrow> jlong \<Rightarrow> jlong list \<Rightarrow> history" where
  "nAllocationRead_l st con alloc data =
     (let len = (of_nat (length data) :: size_t) in
      dispatch_void DispatchTab (AllocationRead con alloc (LongArray data) (len * 4)) st)"

definition nAllocationRead_i :: "history \<Rightarrow> jlong \<Rightarrow> jlong \<Rightarrow> jint list \<Rightarrow> history" where
  "nAllocationRead_i st con alloc data =
     (let len = (of_nat (length data) :: size_t) in
      dispatch_void DispatchTab (AllocationRead con alloc (IntArray data) (len * 4)) st)"

definition nAllocationRead_s :: "history \<Rightarrow> jlong \<Rightarrow> jlong \<Rightarrow> jshort list \<Rightarrow> history" where
  "nAllocationRead_s st con alloc data =
     (let len = (of_nat (length data) :: size_t) in
      dispatch_void DispatchTab (AllocationRead con alloc (ShortArray data) (len * 2)) st)"

definition nAllocationRead_b :: "history \<Rightarrow> jlong \<Rightarrow> jlong \<Rightarrow> jbyte list \<Rightarrow> history" where
  "nAllocationRead_b st con alloc data =
     (let len = (of_nat (length data) :: size_t) in
      dispatch_void DispatchTab (AllocationRead con alloc (ByteArray data) (len * 1)) st)"

definition nAllocationRead_f :: "history \<Rightarrow> jlong \<Rightarrow> jlong \<Rightarrow> 32 word list \<Rightarrow> history" where
  "nAllocationRead_f st con alloc data =
     (let len = (of_nat (length data) :: size_t) in
      dispatch_void DispatchTab (AllocationRead con alloc (FloatArray data) (len * 4)) st)"

text \<open>
  The number of bytes the elements of a pinned Java array occupy: 8 for each
  \<^verbatim>\<open>jlong\<close>, 4 for each \<^verbatim>\<open>jint\<close> and \<^verbatim>\<open>jfloat\<close>, 2 for each \<^verbatim>\<open>jshort\<close>, 1 for
  each \<^verbatim>\<open>jbyte\<close>.
\<close>

fun array_bytes :: "buffer \<Rightarrow> size_t" where
  "array_bytes (LongArray xs) = of_nat (length xs) * 8"
| "array_bytes (IntArray xs) = of_nat (length xs) * 4"
| "array_bytes (ShortArray xs) = of_nat (length xs) * 2"
| "array_bytes (ByteArray xs) = of_nat (length xs)"
| "array_bytes (FloatArray xs) = of_nat (length xs) * 4"
| "array_bytes NullPtr = 0"
| "array_bytes (HostPtr a) = 0"

subsection \<open>Copying Java arrays into native buffers\<close>

text \<open>
  Reading a pinned array beyond its last element, or storing beyond the end of a native
  buffer, has no defined result in the source; the embedding stops with an error there.
\<close>

datatype error = ReadPastEnd | WritePastEnd

text \<open>
  The loop \<^verbatim>\<open>for (i = 0; i < n; i++) dst[i] = src[i];\<close>, run over the indices
  \<open>[0..<n]\<close>.
\<close>

primrec copy_loop :: "nat list \<Rightarrow> 'a list \<Rightarrow> 'a cells \<Rightarrow> error + 'a cells" where
  "copy_loop [] src dst = Inr dst"
| "copy_loop (i # rest) src dst =
     (if length src \<le> i then Inl ReadPastEnd
      else if length dst \<le> i then Inl WritePastEnd
      else copy_loop rest src (dst[i := Some (src ! i)]))"

subsection \<open>Structured elements\<close>

text \<open>
  The loop of \<^verbatim>\<open>nElementCreate2\<close>, which fills \<^verbatim>\<open>ids[i]\<close> and
  \<^verbatim>\<open>arraySizes[i]\<close> in the same iteration.
\<close>

primrec fill_fields ::
  "nat list \<Rightarrow> jlong list \<Rightarrow> jint list \<Rightarrow> jlong cells \<Rightarrow> 32 word cells \<Rightarrow>
   error + (jlong cells \<times> 32 word cells)" where
  "fill_fields [] jIds jArraySizes ids arraySizes = Inr (ids, arraySizes)"
| "fill_fields (i # rest) jIds jArraySizes ids arraySizes =
     (if length jIds \<le> i then Inl ReadPastEnd
      else if length ids \<le> i then Inl WritePastEnd
      else if length jArraySizes \<le> i then Inl ReadPastEnd
      else if length arraySizes \<le> i then Inl WritePastEnd
      else fill_fields rest jIds jArraySizes
             (ids[i := Some (jIds ! i)]) (arraySizes[i := Some (jArraySizes ! i)]))"

text \<open>
  The constructor of \<^verbatim>\<open>AutoJavaStringArrayToUTF8\<close>: for a positive count it
  allocates two zeroed buffers of that many cells and stores, for each index below the
  count, the characters and the UTF-8 length of that element of the Java array; asking
  for an element the Java array does not have is an error. For the count 0 both pointers
  stay null.
\<close>

definition AutoJavaStringArrayToUTF8 ::
  "string list \<Rightarrow> nat \<Rightarrow> error + (string cells \<times> size_t cells)" where
  "AutoJavaStringArrayToUTF8 strings stringsLength =
     (if 0 < stringsLength then
        (case copy_loop [0..<stringsLength] strings (replicate stringsLength None) of
           Inl e \<Rightarrow> Inl e
         | Inr mCStrings \<Rightarrow>
             Inr (mCStrings, map (map_option (\<lambda>s. of_nat (length s))) mCStrings))
      else Inr ([], []))"

definition nElementCreate2 ::
  "backend \<Rightarrow> history \<Rightarrow> jlong \<Rightarrow> jlong list \<Rightarrow> string list \<Rightarrow> jint list \<Rightarrow>
   error + (jlong \<times> history)" where
  "nElementCreate2 be st con jIds jNames jArraySizes =
     (let fieldCount = length jIds in
      case fill_fields [0..<fieldCount] jIds jArraySizes
             (replicate fieldCount None) (replicate fieldCount None) of
        Inl e \<Rightarrow> Inl e
      | Inr (ids, arraySizes) \<Rightarrow>
          (case AutoJavaStringArrayToUTF8 jNames fieldCount of
             Inl e \<Rightarrow> Inl e
           | Inr (nameArray, sizeArray) \<Rightarrow>
               Inr (dispatch be DispatchTab
                      (ElementCreate2 con ids (of_nat fieldCount)
                         nameArray (of_nat fieldCount * 8) sizeArray
                         arraySizes (of_nat fieldCount)) st)))"

subsection \<open>Closures\<close>

text \<open>
  Four buffers come from \<^verbatim>\<open>alloca\<close>, each sized by the length of its own Java
  array. The bounds of the four copy loops are, in the order of the source,
  \<^verbatim>\<open>fieldIDs_length\<close>, \<^verbatim>\<open>values_length\<close>, \<^verbatim>\<open>depClosures_length\<close> and again
  \<^verbatim>\<open>depClosures_length\<close>. The pinned elements of \<^verbatim>\<open>sizeArray\<close> are passed as they
  are, the pointer cast to \<^verbatim>\<open>size_t*\<close>.
\<close>

definition nClosureCreate ::
  "backend \<Rightarrow> history \<Rightarrow> jlong \<Rightarrow> jlong \<Rightarrow> jlong \<Rightarrow> jlong list \<Rightarrow> jlong list \<Rightarrow> jint list \<Rightarrow>
   jlong list \<Rightarrow> jlong list \<Rightarrow> error + (jlong \<times> history)" where
  "nClosureCreate be st con kernelID returnValue fieldIDArray valueArray sizeArray
       depClosureArray depFieldIDArray =
     (let fieldIDs_length = length fieldIDArray;
          values_length = length valueArray;
          sizes_length = length sizeArray;
          depClosures_length = length depClosureArray;
          depFieldIDs_length = length depFieldIDArray
      in
      case copy_loop [0..<fieldIDs_length] fieldIDArray (replicate fieldIDs_length None) of
        Inl e \<Rightarrow> Inl e
      | Inr fieldIDs \<Rightarrow>
      (case copy_loop [0..<values_length] valueArray (replicate values_length None) of
        Inl e \<Rightarrow> Inl e
      | Inr vals \<Rightarrow>
      (case copy_loop [0..<depClosures_length] depClosureArray
              (replicate depClosures_length None) of
        Inl e \<Rightarrow> Inl e
      | Inr depClosures \<Rightarrow>
      (case copy_loop [0..<depClosures_length] depFieldIDArray
              (replicate depFieldIDs_length None) of
        Inl e \<Rightarrow> Inl e
      | Inr depFieldIDs \<Rightarrow>
          Inr (dispatch be DispatchTab
                 (ClosureCreate con kernelID returnValue
                    fieldIDs (of_nat fieldIDs_length) vals (of_nat values_length)
                    (IntArray sizeArray) (of_nat sizes_length)
                    depClosures (of_nat depClosures_length)
                    depFieldIDs (of_nat depFieldIDs_length)) st)))))"

subsection \<open>Adopting an allocation of the primary library in the incremental one\<close>

text \<open>
  \<^verbatim>\<open>strideIn\<close> is an output parameter that the function never reads; the constant
  \<^verbatim>\<open>sizeof(size_t)\<close> that follows it is not kept.
\<close>

definition nIncAllocationCreateTyped ::
  "backend \<Rightarrow> history \<Rightarrow> jlong \<Rightarrow> jlong \<Rightarrow> jlong \<Rightarrow> jlong \<Rightarrow> jlong \<times> history" where
  "nIncAllocationCreateTyped be st con incCon alloc type =
     (if alloc \<noteq> 0 then
        (let (pIn, st1) = dispatch be DispatchTab (AllocationGetPointer con alloc 0 (Face 0) 0 0) st;
             (ainI, st2) = dispatch be DispatchTabInc
                             (AllocationCreateTyped incCon type 1 0x0081 pIn) st1
         in (ainI, st2))
      else (0, st))"

subsection \<open>Activating a library\<close>

text \<open>
  The two tables are process-wide variables; an entry is a function address, or \<open>None\<close>
  while it is unbound. A loaded library resolves symbol names to addresses
  (\<^verbatim>\<open>dlsym\<close>), and \<^verbatim>\<open>dlopen\<close> finds a library by file name or fails.
\<close>

type_synonym dispatchTable = "string \<Rightarrow> jlong option"
type_synonym library = "string \<Rightarrow> jlong option"

record tables =
  dispatchTab :: dispatchTable
  dispatchTabInc :: dispatchTable

text \<open>
  Modelled from the spec: \<^verbatim>\<open>loadSymbols\<close> is declared in \<^verbatim>\<open>rsDispatch.h\<close>, which
  is not among the sources; only its two callers are. The spec describes activation as
  resolving a fixed, enumerated set of required entry points, all or nothing: if any of
  them fails to resolve the activation fails and no partial table is exposed. The list of
  required names is a parameter.
\<close>

definition loadSymbols :: "string list \<Rightarrow> library \<Rightarrow> dispatchTable \<Rightarrow> bool \<times> dispatchTable" where
  "loadSymbols required handle tab =
     (if list_all (\<lambda>s. handle s \<noteq> None) required
      then (True, \<lambda>s. if s \<in> set required then handle s else tab s)
      else (False, tab))"

text \<open>
  \<^verbatim>\<open>nLoadSO\<close> and \<^verbatim>\<open>nIncLoadSO\<close> hand their table to \<^verbatim>\<open>loadSymbols\<close> by
  reference, so the table afterwards is whatever \<^verbatim>\<open>loadSymbols\<close> left in it, on the
  failing path too.
\<close>

definition nLoadSO ::
  "string list \<Rightarrow> (string \<Rightarrow> library option) \<Rightarrow> tables \<Rightarrow> bool \<Rightarrow> bool \<times> tables" where
  "nLoadSO required dlopen g useNative =
     (let handle = (if useNative then dlopen ''libRS.so'' else dlopen ''libRSSupport.so'') in
      case handle of
        None \<Rightarrow> (False, g)
      | Some h \<Rightarrow>
          (let (ok, tab) = loadSymbols required h (dispatchTab g) in
           if ok = False then (False, g\<lparr>dispatchTab := tab\<rparr>)
           else (True, g\<lparr>dispatchTab := tab\<rparr>)))"

definition nIncLoadSO ::
  "string list \<Rightarrow> (string \<Rightarrow> library option) \<Rightarrow> tables \<Rightarrow> bool \<times> tables" where
  "nIncLoadSO required dlopen g =
     (let handle = dlopen ''libRSSupport.so'' in
      case handle of
        None \<Rightarrow> (False, g)
      | Some h \<Rightarrow>
          (let (ok, tab) = loadSymbols required h (dispatchTabInc g) in
           if ok = False then (False, g\<lparr>dispatchTabInc := tab\<rparr>)
           else (True, g\<lparr>dispatchTabInc := tab\<rparr>)))"

text \<open>An opened library resolves every required name (a failed \<^verbatim>\<open>dlopen\<close> resolves none).\<close>

definition resolves_all :: "string list \<Rightarrow> library option \<Rightarrow> bool" where
  "resolves_all required handle =
     (case handle of None \<Rightarrow> False | Some h \<Rightarrow> list_all (\<lambda>s. h s \<noteq> None) required)"

section \<open>Properties\<close>

subsection \<open>Activation\<close>

lemma loadSymbols_fail:
  "\<not> list_all (\<lambda>s. h s \<noteq> None) required \<Longrightarrow> loadSymbols required h tab = (False, tab)"
  by (simp add: loadSymbols_def)

lemma loadSymbols_ok:
  "list_all (\<lambda>s. h s \<noteq> None) required \<Longrightarrow>
   loadSymbols required h tab = (True, \<lambda>s. if s \<in> set required then h s else tab s)"
  by (simp add: loadSymbols_def)

text \<open>
  C3. Activation is all or nothing. If the library that \<^verbatim>\<open>nLoadSO\<close> opens for its
  flag cannot be opened, or does not resolve every required entry point, \<^verbatim>\<open>nLoadSO\<close>
  returns false and both tables are exactly as they were before the attempt. A second
  attempt under the other library name, when that library resolves every required entry
  point, then returns true with every required entry of \<^verbatim>\<open>dispatchTab\<close> bound and
  \<^verbatim>\<open>dispatchTabInc\<close> untouched. \<^verbatim>\<open>nIncLoadSO\<close> fails in the same way, leaving both
  tables as they were. The statement is relative to \<open>loadSymbols\<close> as the spec describes
  it.
\<close>

theorem activation_all_or_nothing:
  "(\<not> resolves_all required (dlopen (if useNative then ''libRS.so'' else ''libRSSupport.so'')) \<longrightarrow>
      nLoadSO required dlopen g useNative = (False, g)) \<and>
   (\<not> resolves_all required (dlopen (if useNative then ''libRS.so'' else ''libRSSupport.so'')) \<and>
    resolves_all required (dlopen (if useNative then ''libRSSupport.so'' else ''libRS.so'')) \<longrightarrow>
      (let (ok, g') = nLoadSO required dlopen
                        (snd (nLoadSO required dlopen g useNative)) (\<not> useNative)
       in ok \<and> list_all (\<lambda>s. dispatchTab g' s \<noteq> None) required \<and>
          dispatchTabInc g' = dispatchTabInc g)) \<and>
   (\<not> resolves_all required (dlopen ''libRSSupport.so'') \<longrightarrow>
      nIncLoadSO required dlopen g = (False, g))"
proof (intro conjI impI)
  assume a: "\<not> resolves_all required (dlopen (if useNative then ''libRS.so'' else ''libRSSupport.so''))"
  show f: "nLoadSO required dlopen g useNative = (False, g)"
    using a by (cases useNative)
      (auto simp: nLoadSO_def resolves_all_def loadSymbols_fail split: option.splits)
next
  assume b: "\<not> resolves_all required (dlopen (if useNative then ''libRS.so'' else ''libRSSupport.so'')) \<and>
    resolves_all required (dlopen (if useNative then ''libRSSupport.so'' else ''libRS.so''))"
  then have f: "nLoadSO required dlopen g useNative = (False, g)"
    by (cases useNative)
      (auto simp: nLoadSO_def resolves_all_def loadSymbols_fail split: option.splits)
  from b obtain h where h: "dlopen (if useNative then ''libRSSupport.so'' else ''libRS.so'') = Some h"
      "list_all (\<lambda>s. h s \<noteq> None) required"
    by (auto simp: resolves_all_def split: option.splits)
  have "nLoadSO required dlopen g (\<not> useNative) =
          (True, g\<lparr>dispatchTab := \<lambda>s. if s \<in> set required then h s else dispatchTab g s\<rparr>)"
    using h by (cases useNative) (auto simp: nLoadSO_def loadSymbols_ok)
  moreover have "list_all (\<lambda>s. (if s \<in> set required then h s else dispatchTab g s) \<noteq> None) required"
    using h(2) by (auto simp: list_all_iff)
  ultimately show "let (ok, g') = nLoadSO required dlopen
                        (snd (nLoadSO required dlopen g useNative)) (\<not> useNative)
       in ok \<and> list_all (\<lambda>s. dispatchTab g' s \<noteq> None) required \<and>
          dispatchTabInc g' = dispatchTabInc g"
    by (simp add: f)
next
  assume "\<not> resolves_all required (dlopen ''libRSSupport.so'')"
  then show "nIncLoadSO required dlopen g = (False, g)"
    by (auto simp: nIncLoadSO_def resolves_all_def loadSymbols_fail split: option.splits)
qed

theorem activation_all_or_nothing_witness:
  "nLoadSO [''rsContextFinish'', ''rsScriptForEach'']
     (\<lambda>n. if n = ''libRS.so'' then Some (\<lambda>s. if s = ''rsContextFinish'' then Some 100 else None)
          else if n = ''libRSSupport.so'' then Some (\<lambda>s. Some 200)
          else None)
     \<lparr>dispatchTab = \<lambda>s. None, dispatchTabInc = \<lambda>s. None\<rparr> True =
     (False, \<lparr>dispatchTab = \<lambda>s. None, dispatchTabInc = \<lambda>s. None\<rparr>) \<and>
   fst (nLoadSO [''rsContextFinish'', ''rsScriptForEach'']
     (\<lambda>n. if n = ''libRS.so'' then Some (\<lambda>s. if s = ''rsContextFinish'' then Some 100 else None)
          else if n = ''libRSSupport.so'' then Some (\<lambda>s. Some 200)
          else None)
     \<lparr>dispatchTab = \<lambda>s. None, dispatchTabInc = \<lambda>s. None\<rparr> False) \<and>
   nIncLoadSO [''rsContextFinish'', ''rsScriptForEach''] (\<lambda>n. None)
     \<lparr>dispatchTab = \<lambda>s. None, dispatchTabInc = \<lambda>s. None\<rparr> =
     (False, \<lparr>dispatchTab = \<lambda>s. None, dispatchTabInc = \<lambda>s. None\<rparr>)"
proof -
  let ?req = "[''rsContextFinish'', ''rsScriptForEach'']"
  let ?dl = "\<lambda>n. if n = ''libRS.so''
                 then Some (\<lambda>s. if s = ''rsContextFinish'' then Some (100 :: jlong) else None)
                 else if n = ''libRSSupport.so'' then Some (\<lambda>s. Some 200)
                 else None"
  let ?g = "\<lparr>dispatchTab = \<lambda>s. None, dispatchTabInc = \<lambda>s. None\<rparr>"
  note th = activation_all_or_nothing [of ?req ?dl True ?g]
  have bad: "\<not> resolves_all ?req (?dl ''libRS.so'')"
    by (simp add: resolves_all_def)
  have good: "resolves_all ?req (?dl ''libRSSupport.so'')"
    by (simp add: resolves_all_def)
  from th bad have c1: "nLoadSO ?req ?dl ?g True = (False, ?g)"
    by simp
  from c1 th bad good have c2: "fst (nLoadSO ?req ?dl ?g False)"
    by (simp add: split_beta)
  have c3: "nIncLoadSO ?req (\<lambda>n. None) ?g = (False, ?g)"
    using activation_all_or_nothing [of ?req "\<lambda>n. None" True ?g]
    by (simp add: resolves_all_def)
  from c1 c2 c3 show ?thesis by simp
qed

subsection \<open>Dispatch by \<^verbatim>\<open>mUseInc\<close>\<close>

lemma nScriptSetVarI_table:
  "nScriptSetVarI st con script slot val mUseInc =
     st @ [Call (if mUseInc then DispatchTabInc else DispatchTab)
             (ScriptSetVarI con script slot val)]"
  by (simp add: nScriptSetVarI_def dispatch_void_def)

lemma nScriptKernelIDCreate_table:
  "snd (nScriptKernelIDCreate be st con sid slot sig mUseInc) =
     st @ [Call (if mUseInc then DispatchTabInc else DispatchTab)
             (ScriptKernelIDCreate con sid slot sig)]"
  by (simp add: nScriptKernelIDCreate_def dispatch_def)

text \<open>
  C7. The claim asks that every script operation taking \<^verbatim>\<open>mUseInc\<close> goes through
  \<^verbatim>\<open>dispatchTabInc\<close> when the flag is true, \<^verbatim>\<open>ScriptFieldIDCreate\<close> included.
  \<^verbatim>\<open>nScriptSetVarI\<close> and \<^verbatim>\<open>nScriptKernelIDCreate\<close> do so (the two lemmas above).
  \<^verbatim>\<open>nScriptFieldIDCreate\<close> does not: called with context 1, script 2, slot 3 and the flag
  true, its only call goes through \<^verbatim>\<open>dispatchTab\<close>, and the handle it returns is the
  one the primary table's entry produced.
\<close>

theorem nScriptFieldIDCreate_useInc_primary:
  "nScriptFieldIDCreate (\<lambda>st t c. if t = DispatchTabInc then 7 else 9) [] 1 2 3 True =
     (9, [Call DispatchTab (ScriptFieldIDCreate 1 2 3)])"
  by (simp add: nScriptFieldIDCreate_def dispatch_def)

subsection \<open>The drain pair around an incremental kernel launch\<close>

lemma nScriptForEach_useInc:
  "nScriptForEach st con incCon script slot ain aout True =
     st @ [Call DispatchTab (ContextFinish con),
           Call DispatchTabInc (ScriptForEach incCon script slot ain aout NullPtr 0 None),
           Call DispatchTabInc (ContextFinish incCon)]"
  by (simp add: nScriptForEach_def dispatch_void_def)

lemma nScriptForEachV_useInc:
  "nScriptForEachV st con incCon script slot ain aout params True =
     st @ [Call DispatchTab (ContextFinish con),
           Call DispatchTabInc (ScriptForEach incCon script slot ain aout
                                  (ByteArray params) (of_nat (length params)) None),
           Call DispatchTabInc (ContextFinish incCon)]"
  by (simp add: nScriptForEachV_def dispatch_void_def)

lemma nScriptForEachClipped_useInc:
  "nScriptForEachClipped st con incCon script slot ain aout x0 x1 y0 y1 z0 z1 True =
     st @ [Call DispatchTab (ContextFinish con),
           Call DispatchTabInc (ScriptForEach incCon script slot ain aout NullPtr 0
             (Some \<lparr>xStart = x0, xEnd = x1, yStart = y0, yEnd = y1, zStart = z0, zEnd = z1,
                    strategy = RS_FOR_EACH_STRATEGY_DONT_CARE, arrayStart = 0, arrayEnd = 0\<rparr>)),
           Call DispatchTabInc (ContextFinish incCon)]"
  by (simp add: nScriptForEachClipped_def dispatch_void_def)

lemma nScriptForEachClippedV_useInc:
  "nScriptForEachClippedV st con incCon script slot ain aout params x0 x1 y0 y1 z0 z1 True =
     st @ [Call DispatchTab (ContextFinish con),
           Call DispatchTabInc (ScriptForEach incCon script slot ain aout
             (ByteArray params) (of_nat (length params))
             (Some \<lparr>xStart = x0, xEnd = x1, yStart = y0, yEnd = y1, zStart = z0, zEnd = z1,
                    strategy = RS_FOR_EACH_STRATEGY_DONT_CARE, arrayStart = 0, arrayEnd = 0\<rparr>)),
           Call DispatchTabInc (ContextFinish con)]"
  by (simp add: nScriptForEachClippedV_def dispatch_void_def)

text \<open>
  C1. The claim asks, for each of the four \<^verbatim>\<open>ForEach\<close> variants called with
  \<^verbatim>\<open>mUseInc\<close> true, for \<^verbatim>\<open>ContextFinish\<close> of the primary table on \<^verbatim>\<open>con\<close>
  before the incremental launch and \<^verbatim>\<open>ContextFinish\<close> of the incremental table on
  \<^verbatim>\<open>incCon\<close> after it. Three variants do exactly that (the first three lemmas above).
  \<^verbatim>\<open>nScriptForEachClippedV\<close> passes \<^verbatim>\<open>con\<close> to the closing call: with \<^verbatim>\<open>con\<close> 1
  and \<^verbatim>\<open>incCon\<close> 2 the incremental table is asked to finish context 1, and context 2,
  on which the kernel was launched, is never drained.
\<close>

theorem nScriptForEachClippedV_drains_con:
  "nScriptForEachClippedV [] 1 2 3 0 4 5 [9] 0 8 0 8 0 1 True =
     [Call DispatchTab (ContextFinish 1),
      Call DispatchTabInc (ScriptForEach 2 3 0 4 5 (ByteArray [9]) 1
        (Some \<lparr>xStart = 0, xEnd = 8, yStart = 0, yEnd = 8, zStart = 0, zEnd = 1,
               strategy = RS_FOR_EACH_STRATEGY_DONT_CARE, arrayStart = 0, arrayEnd = 0\<rparr>)),
      Call DispatchTabInc (ContextFinish 1)] \<and>
   Call DispatchTabInc (ContextFinish 2) \<notin>
     set (nScriptForEachClippedV [] 1 2 3 0 4 5 [9] 0 8 0 8 0 1 True)"
  by (simp add: nScriptForEachClippedV_def dispatch_void_def)

subsection \<open>The payload of a sent message\<close>

lemma nContextSendMessage_ptr:
  "nContextSendMessage st con ident (Some d) =
     st @ [Call DispatchTab (ContextSendMessage con ident NullPtr (of_nat (length d) * 4))]"
  by (simp add: nContextSendMessage_def dispatch_void_def)

text \<open>
  C2. The claim asks that the send entry point of the library receives the bytes of the
  payload array together with the byte length \<open>4 * n\<close>. The byte length is passed, the
  bytes are not: for \<^verbatim>\<open>SendMessage(ctx, 7, [1,2,3])\<close> the call carries length 12 and
  the null pointer, since the pinned elements are stored in a variable of the inner block.
\<close>

theorem nContextSendMessage_payload_null:
  "nContextSendMessage [] 1 7 (Some [1, 2, 3]) =
     [Call DispatchTab (ContextSendMessage 1 7 NullPtr 12)] \<and>
   nContextSendMessage [] 1 7 (Some [1, 2, 3]) \<noteq>
     [Call DispatchTab (ContextSendMessage 1 7 (IntArray [1, 2, 3]) 12)]"
  by (simp add: nContextSendMessage_def dispatch_void_def)

subsection \<open>Locking and unlocking bitmap pixels\<close>

text \<open>
  C9, as the claim states it, fails where the lock yields the null pointer: the entry
  point returns with the lock event recorded and no unlock after it (and, being a creation
  that made no call through the table, returns 0).
\<close>

theorem bitmap_null_lock_no_unlock:
  "nAllocationCreateFromBitmap (\<lambda>st t c. 5) [] 1 2 0
       \<lparr>width = 4, height = 4, format = ANDROID_BITMAP_FORMAT_RGBA_8888, lockPixels = 0\<rparr> 1 =
     (0, [AndroidBitmap_lockPixels
            \<lparr>width = 4, height = 4, format = ANDROID_BITMAP_FORMAT_RGBA_8888, lockPixels = 0\<rparr>]) \<and>
   AndroidBitmap_unlockPixels
       \<lparr>width = 4, height = 4, format = ANDROID_BITMAP_FORMAT_RGBA_8888, lockPixels = 0\<rparr> \<notin>
     set (snd (nAllocationCreateFromBitmap (\<lambda>st t c. 5) [] 1 2 0
       \<lparr>width = 4, height = 4, format = ANDROID_BITMAP_FORMAT_RGBA_8888, lockPixels = 0\<rparr> 1))"
  by (simp add: nAllocationCreateFromBitmap_def)

text \<open>
  C9, amended. Each of the five bitmap-backed entry points asks for the lock once. When
  the lock yields a non-null address, the entry point makes exactly one call through the
  primary table on that address and then unlocks the bitmap, and a creation returns the
  handle of that call. When the lock yields the null pointer, the entry point makes no
  call and no unlock, and a creation returns 0.
\<close>

theorem bitmap_lock_call_unlock:
  "nAllocationCreateFromBitmap be st con type mip b usage =
     (let st1 = st @ [AndroidBitmap_lockPixels b];
          c = AllocationCreateFromBitmap con type mip (lockPixels b) (GetBitmapSize b) usage
      in if lockPixels b = 0 then (0, st1)
         else (be st1 DispatchTab c, st1 @ [Call DispatchTab c, AndroidBitmap_unlockPixels b])) \<and>
   nAllocationCreateBitmapBackedAllocation be st con type mip b usage =
     (let st1 = st @ [AndroidBitmap_lockPixels b];
          c = AllocationCreateTyped con type mip usage (lockPixels b)
      in if lockPixels b = 0 then (0, st1)
         else (be st1 DispatchTab c, st1 @ [Call DispatchTab c, AndroidBitmap_unlockPixels b])) \<and>
   nAllocationCubeCreateFromBitmap be st con type mip b usage =
     (let st1 = st @ [AndroidBitmap_lockPixels b];
          c = AllocationCubeCreateFromBitmap con type mip (lockPixels b) (GetBitmapSize b) usage
      in if lockPixels b = 0 then (0, st1)
         else (be st1 DispatchTab c, st1 @ [Call DispatchTab c, AndroidBitmap_unlockPixels b])) \<and>
   nAllocationCopyFromBitmap st con alloc b =
     (let st1 = st @ [AndroidBitmap_lockPixels b];
          c = Allocation2DData con alloc 0 0 0 RS_ALLOCATION_CUBEMAP_FACE_POSITIVE_X
                (width b) (height b) (HostPtr (lockPixels b)) (GetBitmapSize b) 0
      in if lockPixels b = 0 then st1
         else st1 @ [Call DispatchTab c, AndroidBitmap_unlockPixels b]) \<and>
   nAllocationCopyToBitmap st con alloc b =
     (let st1 = st @ [AndroidBitmap_lockPixels b];
          c = AllocationCopyToBitmap con alloc (lockPixels b) (GetBitmapSize b)
      in if lockPixels b = 0 then st1
         else st1 @ [Call DispatchTab c, AndroidBitmap_unlockPixels b])"
  by (simp add: nAllocationCreateFromBitmap_def nAllocationCreateBitmapBackedAllocation_def
        nAllocationCubeCreateFromBitmap_def nAllocationCopyFromBitmap_def
        nAllocationCopyToBitmap_def dispatch_def dispatch_void_def Let_def)

theorem bitmap_lock_call_unlock_witness:
  "nAllocationCreateFromBitmap (\<lambda>st t c. 5) [] 1 2 0
       \<lparr>width = 4, height = 4, format = ANDROID_BITMAP_FORMAT_RGBA_8888, lockPixels = 64\<rparr> 1 =
     (5, [AndroidBitmap_lockPixels
            \<lparr>width = 4, height = 4, format = ANDROID_BITMAP_FORMAT_RGBA_8888, lockPixels = 64\<rparr>,
          Call DispatchTab (AllocationCreateFromBitmap 1 2 0 64 64 1),
          AndroidBitmap_unlockPixels
            \<lparr>width = 4, height = 4, format = ANDROID_BITMAP_FORMAT_RGBA_8888, lockPixels = 64\<rparr>]) \<and>
   nAllocationCopyToBitmap [] 1 3
       \<lparr>width = 4, height = 2, format = ANDROID_BITMAP_FORMAT_RGB_565, lockPixels = 0\<rparr> =
     [AndroidBitmap_lockPixels
        \<lparr>width = 4, height = 2, format = ANDROID_BITMAP_FORMAT_RGB_565, lockPixels = 0\<rparr>]"
  using bitmap_lock_call_unlock [where be = "\<lambda>st t c. 5" and st = "[]" and con = 1
          and type = 2 and mip = 0 and usage = 1 and b =
          "\<lparr>width = 4, height = 4, format = ANDROID_BITMAP_FORMAT_RGBA_8888, lockPixels = 64\<rparr>"]
        bitmap_lock_call_unlock [where st = "[]" and con = 1 and alloc = 3 and b =
          "\<lparr>width = 4, height = 2, format = ANDROID_BITMAP_FORMAT_RGB_565, lockPixels = 0\<rparr>"]
  by (simp add: Let_def GetBitmapSize_def)

subsection \<open>Byte counts of transfers\<close>

lemma nAllocationRead_sizes:
  "nAllocationRead_i st con alloc xs =
     st @ [Call DispatchTab (AllocationRead con alloc (IntArray xs) (array_bytes (IntArray xs)))]"
  "nAllocationRead_s st con alloc ys =
     st @ [Call DispatchTab (AllocationRead con alloc (ShortArray ys) (array_bytes (ShortArray ys)))]"
  "nAllocationRead_b st con alloc zs =
     st @ [Call DispatchTab (AllocationRead con alloc (ByteArray zs) (array_bytes (ByteArray zs)))]"
  "nAllocationRead_f st con alloc fs =
     st @ [Call DispatchTab (AllocationRead con alloc (FloatArray fs) (array_bytes (FloatArray fs)))]"
  by (simp_all add: nAllocationRead_i_def nAllocationRead_s_def nAllocationRead_b_def
        nAllocationRead_f_def dispatch_void_def)

lemma nAllocationRead_l_size:
  "nAllocationRead_l st con alloc data =
     st @ [Call DispatchTab (AllocationRead con alloc (LongArray data) (of_nat (length data) * 4))]"
  by (simp add: nAllocationRead_l_def dispatch_void_def)

text \<open>
  C6. A round trip through the 64-bit pair needs the read to ask for every byte of the
  caller's array. Writing two longs with \<^verbatim>\<open>nAllocationData1D_l\<close> hands the library the
  16 bytes the caller declares; reading back into a two-element long array with
  \<^verbatim>\<open>nAllocationRead_l\<close> asks the library for 8 bytes, half of the 16 the array holds, so
  the second element is not read back. The int, short, byte and float reads ask for the
  full length of their arrays (lemma \<open>nAllocationRead_sizes\<close>).
\<close>

theorem nAllocationRead_l_half:
  "nAllocationData1D_l [] 1 2 0 0 2 [1, 2] 16 =
     [Call DispatchTab (Allocation1DData 1 2 0 0 2 (LongArray [1, 2]) 16)] \<and>
   nAllocationRead_l [] 1 2 [0, 0] =
     [Call DispatchTab (AllocationRead 1 2 (LongArray [0, 0]) 8)] \<and>
   array_bytes (LongArray [0, 0]) = 16"
  by (simp add: nAllocationData1D_l_def nAllocationRead_l_def dispatch_void_def)

text \<open>
  C8, as the claim states it, fails: a write of 2 elements declaring 3 bytes (not a
  multiple of the element count, so a mismatch whatever the element size) is handed to
  the library's entry point with the caller's array and the byte count 3.
\<close>

theorem nAllocationData1D_i_mismatch_forwarded:
  "\<not> (2::nat) dvd 3 \<and>
   nAllocationData1D_i [] 1 2 0 0 2 [10, 11] 3 =
     [Call DispatchTab (Allocation1DData 1 2 0 0 2 (IntArray [10, 11]) 3)]"
  by (simp add: nAllocationData1D_i_def dispatch_void_def)

text \<open>
  C8, amended. The 1D, 2D and 3D write entry points compare nothing: for every element
  count or extent, array and declared byte count they make exactly one call to the
  library's \<^verbatim>\<open>Allocation1DData\<close>, \<^verbatim>\<open>Allocation2DData\<close> or \<^verbatim>\<open>Allocation3DData\<close>
  entry through the primary table, carrying the caller's arguments and the declared byte
  count (widened to \<^verbatim>\<open>size_t\<close>) as they are; whether the size matches the element count is
  left to the library.
\<close>

theorem nAllocationData_forwards_unchecked:
  "nAllocationData1D_i st con alloc offset lod count data sizeBytes =
     st @ [Call DispatchTab
             (Allocation1DData con alloc offset lod count (IntArray data) (scast sizeBytes))] \<and>
   nAllocationData2D_i st con alloc xoff yoff lod face w h data sizeBytes =
     st @ [Call DispatchTab
             (Allocation2DData con alloc xoff yoff lod (Face face) w h (IntArray data)
                (scast sizeBytes) 0)] \<and>
   nAllocationData3D_i st con alloc xoff yoff zoff lod w h d data sizeBytes =
     st @ [Call DispatchTab
             (Allocation3DData con alloc xoff yoff zoff lod w h d (IntArray data)
                (scast sizeBytes) 0)]"
  by (simp add: nAllocationData1D_i_def nAllocationData2D_i_def nAllocationData3D_i_def
        dispatch_void_def)

subsection \<open>The copy loops\<close>

lemma copy_loop_append:
  "copy_loop (xs @ ys) src dst =
     (case copy_loop xs src dst of Inl e \<Rightarrow> Inl e | Inr d \<Rightarrow> copy_loop ys src d)"
  by (induction xs arbitrary: dst) simp_all

lemma copy_loop_upt:
  "n \<le> length src \<Longrightarrow> n \<le> m \<Longrightarrow>
   copy_loop [0..<n] src (replicate m None) =
     Inr (map Some (take n src) @ replicate (m - n) None)"
proof (induction n)
  case 0
  then show ?case by simp
next
  case (Suc n)
  then have n: "n < length src" "n < m" by simp_all
  from n(2) obtain k where k: "m - n = Suc k" "m - Suc n = k"
    by (metis Suc_diff_Suc)
  have upd: "(map Some (take n src) @ replicate (m - n) None)[n := Some (src ! n)] =
               map Some (take (Suc n) src) @ replicate (m - Suc n) None"
    using n(1) k by (simp add: list_update_append take_Suc_conv_app_nth)
  from Suc n show ?case
    by (simp add: copy_loop_append upd)
qed

lemma copy_loop_full:
  "copy_loop [0..<length src] src (replicate (length src) None) = Inr (map Some src)"
  using copy_loop_upt [of "length src" src "length src"] by simp

lemma fill_fields_append:
  "fill_fields (xs @ ys) a b ids szs =
     (case fill_fields xs a b ids szs of Inl e \<Rightarrow> Inl e | Inr (i, s) \<Rightarrow> fill_fields ys a b i s)"
  by (induction xs arbitrary: ids szs) simp_all

lemma fill_fields_upt:
  "n \<le> length a \<Longrightarrow> n \<le> length b \<Longrightarrow> n \<le> m \<Longrightarrow>
   fill_fields [0..<n] a b (replicate m None) (replicate m None) =
     Inr (map Some (take n a) @ replicate (m - n) None,
          map Some (take n b) @ replicate (m - n) None)"
proof (induction n)
  case 0
  then show ?case by simp
next
  case (Suc n)
  then have n: "n < length a" "n < length b" "n < m" by simp_all
  from n(3) obtain k where k: "m - n = Suc k" "m - Suc n = k"
    by (metis Suc_diff_Suc)
  have upd: "(map Some (take n xs) @ replicate (m - n) None)[n := Some (xs ! n)] =
               map Some (take (Suc n) xs) @ replicate (m - Suc n) None"
    if "n < length xs" for xs :: "'b list"
    using that k by (simp add: list_update_append take_Suc_conv_app_nth)
  from Suc n show ?case
    by (simp add: fill_fields_append upd)
qed

subsection \<open>The dependency arrays of a closure\<close>

lemma nClosureCreate_parallel:
  assumes "length depClosureArray = length depFieldIDArray"
  shows "nClosureCreate be st con kernelID returnValue fieldIDArray valueArray sizeArray
           depClosureArray depFieldIDArray =
         Inr (dispatch be DispatchTab
                (ClosureCreate con kernelID returnValue
                   (map Some fieldIDArray) (of_nat (length fieldIDArray))
                   (map Some valueArray) (of_nat (length valueArray))
                   (IntArray sizeArray) (of_nat (length sizeArray))
                   (map Some depClosureArray) (of_nat (length depClosureArray))
                   (map Some depFieldIDArray) (of_nat (length depFieldIDArray))) st)"
proof -
  have dep: "copy_loop [0..<length depClosureArray] depFieldIDArray
               (replicate (length depClosureArray) None) = Inr (map Some depFieldIDArray)"
    using copy_loop_full [of depFieldIDArray] assms by simp
  show ?thesis
    by (simp add: nClosureCreate_def Let_def copy_loop_full dep assms [symmetric])
qed

text \<open>
  C5. The claim asks that, for every call, each cell of the dependency-field-id buffer
  holds the element of \<^verbatim>\<open>depFieldIDArray\<close> at the same index. The buffer has the
  length of \<^verbatim>\<open>depFieldIDArray\<close>, but the loop that fills it runs to the length of
  \<^verbatim>\<open>depClosureArray\<close>. With no dependency closures and the field ids \<open>[5]\<close> the
  library receives a one-cell buffer that was never written; with two dependency closures
  and one field id the loop reads past the end of the field-id array. When the two arrays
  have the same length every buffer mirrors its array (lemma \<open>nClosureCreate_parallel\<close>).
\<close>

theorem nClosureCreate_depFieldIDs_unset:
  "nClosureCreate (\<lambda>st t c. 6) [] 1 2 3 [] [] [] [] [5] =
     Inr (6, [Call DispatchTab (ClosureCreate 1 2 3 [] 0 [] 0 (IntArray []) 0 [] 0 [None] 1)]) \<and>
   nClosureCreate (\<lambda>st t c. 6) [] 1 2 3 [] [] [] [7, 8] [5] = Inl ReadPastEnd"
  by (simp add: nClosureCreate_def dispatch_def upt_rec)

subsection \<open>The parallel arrays of a structured element\<close>

text \<open>
  C4, as the claim states it, fails: with two ids, two names and three array sizes the
  lengths are not all equal, yet the call returns the handle of the library's
  \<^verbatim>\<open>ElementCreate2\<close>, which was given two fields.
\<close>

theorem nElementCreate2_unequal_lengths_created:
  "nElementCreate2 (\<lambda>st t c. 6) [] 1 [10, 11] [''x'', ''y''] [1, 1, 1] =
     Inr (6, [Call DispatchTab
                (ElementCreate2 1 [Some 10, Some 11] 2 [Some ''x'', Some ''y''] 16
                   [Some 1, Some 1] [Some 1, Some 1] 2)])"
  by (simp add: nElementCreate2_def AutoJavaStringArrayToUTF8_def dispatch_def upt_rec)

text \<open>
  C4, amended. \<^verbatim>\<open>nElementCreate2\<close> takes the field count from the id array alone
  and compares no lengths. Whenever the name array and the array-size array each have at
  least that many elements, it calls the library's \<^verbatim>\<open>ElementCreate2\<close> once, with
  every id, the first names and array sizes up to the field count, and the UTF-8 lengths of
  those names, and returns the handle of that call. For three arrays of equal length
  these are all entries of all three.
\<close>

theorem nElementCreate2_prefix:
  assumes "length jIds \<le> length jNames" and "length jIds \<le> length jArraySizes"
  shows "nElementCreate2 be st con jIds jNames jArraySizes =
           Inr (dispatch be DispatchTab
                  (ElementCreate2 con (map Some jIds) (of_nat (length jIds))
                     (map Some (take (length jIds) jNames)) (of_nat (length jIds) * 8)
                     (map (\<lambda>s. Some (of_nat (length s))) (take (length jIds) jNames))
                     (map Some (take (length jIds) jArraySizes)) (of_nat (length jIds))) st)"
proof -
  let ?n = "length jIds"
  have ff: "fill_fields [0..<?n] jIds jArraySizes (replicate ?n None) (replicate ?n None) =
              Inr (map Some jIds, map Some (take ?n jArraySizes))"
    using fill_fields_upt [of ?n jIds jArraySizes ?n] assms(2) by simp
  have nm: "AutoJavaStringArrayToUTF8 jNames ?n =
              Inr (map Some (take ?n jNames),
                   map (\<lambda>s. Some (of_nat (length s))) (take ?n jNames))"
    using copy_loop_upt [of ?n jNames ?n] assms(1)
    by (simp add: AutoJavaStringArrayToUTF8_def comp_def)
  show ?thesis
    by (simp add: nElementCreate2_def Let_def ff nm)
qed

theorem nElementCreate2_prefix_witness:
  "nElementCreate2 (\<lambda>st t c. 6) [] 1 [10, 11] [''x'', ''y''] [1, 1] =
     Inr (6, [Call DispatchTab
                (ElementCreate2 1 [Some 10, Some 11] 2 [Some ''x'', Some ''y''] 16
                   [Some 1, Some 1] [Some 1, Some 1] 2)])"
  using nElementCreate2_prefix [of "[10, 11]" "[''x'', ''y'']" "[1, 1]" "\<lambda>st t c. 6" "[]" 1]
  by (simp add: dispatch_def)

subsection \<open>Cross-library allocation adoption\<close>

text \<open>
  C10. With source handle 0, \<^verbatim>\<open>nIncAllocationCreateTyped\<close> returns 0 and adds no
  event to the history, so neither \<^verbatim>\<open>AllocationGetPointer\<close> of the primary table nor
  \<^verbatim>\<open>AllocationCreateTyped\<close> of the incremental table is called. With a non-zero
  handle it calls \<^verbatim>\<open>AllocationGetPointer\<close> through the primary table, then
  \<^verbatim>\<open>AllocationCreateTyped\<close> through the incremental table on the pointer obtained,
  and returns the handle that call yields.
\<close>

theorem nIncAllocationCreateTyped_guard:
  "(alloc = 0 \<longrightarrow> nIncAllocationCreateTyped be st con incCon alloc type = (0, st)) \<and>
   (alloc \<noteq> 0 \<longrightarrow>
      (let getp = AllocationGetPointer con alloc 0 (Face 0) 0 0;
           pIn = be st DispatchTab getp;
           st1 = st @ [Call DispatchTab getp];
           create = AllocationCreateTyped incCon type 1 0x0081 pIn
       in nIncAllocationCreateTyped be st con incCon alloc type =
            (be st1 DispatchTabInc create, st1 @ [Call DispatchTabInc create])))"
  by (simp add: nIncAllocationCreateTyped_def dispatch_def Let_def)

theorem nIncAllocationCreateTyped_guard_witness:
  "nIncAllocationCreateTyped (\<lambda>st t c. if t = DispatchTab then 64 else 5) [] 1 2 0 3 = (0, []) \<and>
   nIncAllocationCreateTyped (\<lambda>st t c. if t = DispatchTab then 64 else 5) [] 1 2 4 3 =
     (5, [Call DispatchTab (AllocationGetPointer 1 4 0 (Face 0) 0 0),
          Call DispatchTabInc (AllocationCreateTyped 2 3 1 0x0081 64)])"
  using nIncAllocationCreateTyped_guard
          [of 0 "\<lambda>st t c. if t = DispatchTab then 64 else 5" "[]" 1 2 3]
        nIncAllocationCreateTyped_guard
          [of 4 "\<lambda>st t c. if t = DispatchTab then 64 else 5" "[]" 1 2 3]
  by (simp add: Let_def)

end
